theory Spec2Isabelle
  imports Main "HOL-Library.Sublist"
begin

section \<open>The resource graph, hosts and secrets consumed by database-connection.ts\<close>

text \<open>
  The connection classes of \<^verbatim>\<open>lib/deadline/lib/database-connection.ts\<close> work on
  objects of the construct tree: they read a node's children, its default child and its
  runtime class, and they call mutators on it (\<^verbatim>\<open>addDependency\<close>, \<^verbatim>\<open>addError\<close>,
  \<^verbatim>\<open>addWarning\<close>, \<^verbatim>\<open>addCommands\<close>, \<^verbatim>\<open>grantRead\<close>). Constructs are shared mutable
  objects, so they live in a store indexed by references; every mutator call is recorded
  in the order in which the source issues it.
\<close>

type_synonym ref = nat

text \<open>
  \<^verbatim>\<open>OperatingSystemType\<close> is the numeric enum of aws-cdk-lib/aws-ec2, with the members in
  this order.
\<close>

datatype OperatingSystemType = LINUX | WINDOWS | UNKNOWN

text \<open>The runtime classes that the source tests with \<^verbatim>\<open>instanceof\<close>.\<close>

datatype construct_class =
    DatabaseCluster | CfnDBCluster | CfnDBInstance | MongoDbInstance | Volume
  | ScriptAsset | OtherConstruct

datatype annotation_level = AnnWarning | AnnError

record construct =
  node_id :: string
  klass :: construct_class
  children :: "(string \<times> ref) list"
  defaultChild :: "ref option"
  dependencies :: "ref list"
  annotations :: "(annotation_level \<times> string) list"
  engineVersion :: "string option"
  vpcSecurityGroupIds :: "string list option"

text \<open>
  A secret handle: its ARN and the region of the stack that owns it
  (\<^verbatim>\<open>Stack.of(secret).region\<close>).
\<close>

record secret =
  secretArn :: string
  secret_region :: string

record IX509CertificatePkcs12 =
  cert :: secret
  passphrase :: secret

text \<open>
  An entry of a host's boot script: a shell command added with \<^verbatim>\<open>addCommands\<close>, or the
  download-and-run of a script asset added by \<^verbatim>\<open>ScriptAsset.executeOn\<close>.
\<close>

datatype boot_entry = Command string | ExecuteScript ref "string list"

record IHost =
  host_ref :: ref
  osType :: OperatingSystemType
  host_stack :: ref

record world =
  heap :: "ref \<Rightarrow> construct"
  next_ref :: ref
  userData :: "ref \<Rightarrow> boot_entry list"
  grants :: "(secret \<times> ref) list"

text \<open>
  A call either returns or throws; a throw keeps the mutations made before it, so both
  outcomes carry the store.
\<close>

datatype 's outcome = Returned 's | Threw string 's

fun is_thrown :: "'s outcome \<Rightarrow> bool" where
  "is_thrown (Threw m s) = True"
| "is_thrown (Returned s) = False"

fun final :: "'s outcome \<Rightarrow> 's" where
  "final (Threw m s) = s"
| "final (Returned s) = s"

definition tryFindChild :: "world \<Rightarrow> ref \<Rightarrow> string \<Rightarrow> ref option" where
  "tryFindChild w r name = map_of (children (heap w r)) name"

definition addDependency :: "ref \<Rightarrow> ref \<Rightarrow> world \<Rightarrow> world" where
  "addDependency child target w =
     w\<lparr>heap := (heap w)(child := (heap w child)
          \<lparr>dependencies := dependencies (heap w child) @ [target]\<rparr>)\<rparr>"

definition addAnnotation :: "annotation_level \<Rightarrow> ref \<Rightarrow> string \<Rightarrow> world \<Rightarrow> world" where
  "addAnnotation lvl scope msg w =
     w\<lparr>heap := (heap w)(scope := (heap w scope)
          \<lparr>annotations := annotations (heap w scope) @ [(lvl, msg)]\<rparr>)\<rparr>"

definition addCommands :: "IHost \<Rightarrow> string list \<Rightarrow> world \<Rightarrow> world" where
  "addCommands h cmds w =
     w\<lparr>userData := (userData w)(host_ref h := userData w (host_ref h) @ map Command cmds)\<rparr>"

definition secret_grantRead :: "secret \<Rightarrow> ref \<Rightarrow> world \<Rightarrow> world" where
  "secret_grantRead s grantee w = w\<lparr>grants := grants w @ [(s, grantee)]\<rparr>"

section \<open>Connection options\<close>

record IDatabaseCluster =
  cluster_node :: ref
  clusterEndpoint_hostname :: string
  clusterEndpoint_portAsString :: string

record DocDBConnectionOptions =
  database :: IDatabaseCluster
  login :: secret

record IMongoDb =
  mongo_node :: ref
  fullHostname :: string
  port :: nat
  mongoDataVolume :: "ref option"

record MongoDbInstanceConnectionOptions =
  mongo_database :: IMongoDb
  clientCertificate :: IX509CertificatePkcs12

record DocDBDatabaseConnection =
  docdb_props :: DocDBConnectionOptions
  docdb_containerEnvironment :: "(string \<times> string) list"
  docdb_databaseConstruct :: "ref option"

record MongoDbInstanceDatabaseConnection =
  mongo_props :: MongoDbInstanceConnectionOptions
  mongo_containerEnvironment :: "(string \<times> string) list"
  mongo_databaseConstruct :: "ref option"

datatype DatabaseConnection =
    DocDB DocDBDatabaseConnection
  | MongoDbInst MongoDbInstanceDatabaseConnection

section \<open>Rendering of numbers in template literals\<close>

definition digit_char :: "nat \<Rightarrow> char" where
  "digit_char d = char_of (48 + d)"

function string_of_nat :: "nat \<Rightarrow> string" where
  "string_of_nat n =
     (if n < 10 then [digit_char n] else string_of_nat (n div 10) @ [digit_char (n mod 10)])"
  by pat_completeness auto
termination
  by (relation "measure id") auto

section \<open>The DocumentDB connection\<close>

definition isCompatibleDocDBVersion :: "DocDBConnectionOptions \<Rightarrow> world \<Rightarrow> bool" where
  "isCompatibleDocDBVersion props w =
     (case defaultChild (heap w (cluster_node (database props))) of
        Some cluster \<Rightarrow>
          (case engineVersion (heap w cluster) of
             Some v \<Rightarrow> prefix ''3.6'' v \<or> prefix ''4.0'' v \<or> prefix ''5.0'' v
           | None \<Rightarrow> False)
      | None \<Rightarrow> True)"

definition docdb_version_error :: string where
  "docdb_version_error =
     ''engineVersion must be one of 3.6.0, 4.0.0 or 5.0.0 to be compatible with Deadline''"

definition new_DocDBDatabaseConnection ::
    "DocDBConnectionOptions \<Rightarrow> world \<Rightarrow> DocDBDatabaseConnection \<times> world" where
  "new_DocDBDatabaseConnection props w =
     (let db = cluster_node (database props);
          w1 = (if \<not> isCompatibleDocDBVersion props w
                then addAnnotation AnnError db docdb_version_error w else w)
      in (\<lparr>docdb_props = props,
           docdb_containerEnvironment = [(''DB_CREDENTIALS_URI'', secretArn (login props))],
           docdb_databaseConstruct =
             (if klass (heap w1 db) = DatabaseCluster then Some db else None)\<rparr>, w1))"

definition getJsonVal_def_line :: string where
  \<open>getJsonVal_def_line =
     ''getJsonVal(){ python3 -c 'import json,sys;obj=json.load(sys.stdin);print(obj["'$1'"])'; }''\<close>

definition restore_xtrace :: string where
  "restore_xtrace = ''if [[ $SET_X_IS_SET =~ x ]]; then set -x; else set +x; fi''"

definition docdb_installer_commands :: "DocDBConnectionOptions \<Rightarrow> string list" where
  \<open>docdb_installer_commands props =
    [''configure_database_installation_args(){'',
     getJsonVal_def_line,
     ''SET_X_IS_SET=$-'',
     ''{ set +x; } 2>/dev/null'',
     ''export SECRET_STRING=`aws secretsmanager get-secret-value --secret-id '' @
        secretArn (login props) @ '' --region '' @ secret_region (login props) @
        '' | getJsonVal 'SecretString'`'',
     ''DB_USERNAME=`printenv SECRET_STRING | getJsonVal 'username'`'',
     ''DB_PASSWORD=`printenv SECRET_STRING | getJsonVal 'password'`'',
     ''unset SECRET_STRING'',
     ''INSTALLER_DB_ARGS=( ["--dbuser"]=$DB_USERNAME ["--dbpassword"]=$DB_PASSWORD ["--dbhost"]='' @
        clusterEndpoint_hostname (database props) @
        '' ["--dbport"]='' @ clusterEndpoint_portAsString (database props) @
        '' ["--dbtype"]=DocumentDB )'',
     ''unset DB_USERNAME'',
     ''unset DB_PASSWORD'',
     restore_xtrace,
     ''}'',
     ''export -f configure_database_installation_args'']\<close>

definition docdb_connection_commands :: "DocDBConnectionOptions \<Rightarrow> string list" where
  \<open>docdb_connection_commands props =
    [''configure_deadline_database(){'',
     getJsonVal_def_line,
     ''SET_X_IS_SET=$-'',
     ''{ set +x; } 2>/dev/null'',
     ''export SECRET_STRING=`aws secretsmanager get-secret-value --secret-id '' @
        secretArn (login props) @ '' --region '' @ secret_region (login props) @
        '' | getJsonVal 'SecretString'`'',
     ''DB_USERNAME=`printenv SECRET_STRING | getJsonVal 'username'`'',
     ''DB_PASSWORD=`printenv SECRET_STRING | getJsonVal 'password'`'',
     ''unset SECRET_STRING'',
     ''sudo -u ec2-user "${deadlinecommand}" -StoreDatabasecredentials "${DB_USERNAME}" "${DB_PASSWORD}"'',
     ''unset DB_USERNAME'',
     ''unset DB_PASSWORD'',
     restore_xtrace,
     ''}'',
     ''export -f configure_deadline_database'']\<close>

definition docdb_addInstallerDBArgs ::
    "DocDBDatabaseConnection \<Rightarrow> IHost \<Rightarrow> world \<Rightarrow> world outcome" where
  "docdb_addInstallerDBArgs c h w =
     (if osType h \<noteq> LINUX then Threw ''Can only install Deadline from a Linux instance.'' w
      else Returned (addCommands h (docdb_installer_commands (docdb_props c)) w))"

definition docdb_addConnectionDBArgs ::
    "DocDBDatabaseConnection \<Rightarrow> IHost \<Rightarrow> world \<Rightarrow> world outcome" where
  "docdb_addConnectionDBArgs c h w =
     (if osType h \<noteq> LINUX
      then Threw ''Connecting to the Deadline Database is currently only supported for Linux.'' w
      else Returned (addCommands h (docdb_connection_commands (docdb_props c)) w))"

definition docdb_grantRead :: "DocDBDatabaseConnection \<Rightarrow> ref \<Rightarrow> world \<Rightarrow> world" where
  "docdb_grantRead c grantee w = secret_grantRead (login (docdb_props c)) grantee w"

definition docdb_internal_changed :: string where
  \<open>docdb_internal_changed =
     ''The internal implementation of the AWS CDK's DocumentDB cluster construct may have changed. Please update to a newer RFDK for an updated implementation, or file a ticket if this is the latest release.''\<close>

definition docdb_addChildDependency ::
    "DocDBDatabaseConnection \<Rightarrow> ref \<Rightarrow> world \<Rightarrow> world outcome" where
  "docdb_addChildDependency c child w =
     (let db = cluster_node (database (docdb_props c)) in
      case tryFindChild w db ''Instance1'' of
        Some docdbInstance \<Rightarrow> Returned (addDependency child docdbInstance w)
      | None \<Rightarrow>
          (if defaultChild (heap w db) \<noteq> None then Threw docdb_internal_changed w
           else Returned w))"

record ISecurityGroup =
  securityGroupId :: string
  sg_node_id :: string

text \<open>\<^verbatim>\<open>Array.prototype.join\<close>.\<close>

fun join :: "string \<Rightarrow> string list \<Rightarrow> string" where
  "join sep [] = []"
| "join sep [x] = x"
| "join sep (x # y # ys) = x @ sep @ join sep (y # ys)"

definition reason_internal_changed :: string where
  \<open>reason_internal_changed =
     ''The internal implementation of AWS CDK's DocumentDB cluster construct has changed.''\<close>

definition reason_not_cluster :: string where
  \<open>reason_not_cluster =
     ''The "database" property passed to this class is not an instance of AWS CDK's DocumentDB cluster construct.''\<close>

definition sg_warning :: "string \<Rightarrow> ISecurityGroup list \<Rightarrow> string list \<Rightarrow> string" where
  "sg_warning db_id securityGroups errorReasons =
     ''Failed to add the following security groups to '' @ db_id @ '': '' @
     join '', '' (map sg_node_id securityGroups) @ ''. '' @ join '' '' errorReasons"

definition push_vpcSecurityGroupIds :: "ref \<Rightarrow> string list \<Rightarrow> world \<Rightarrow> world" where
  "push_vpcSecurityGroupIds cfnCluster securityGroupIds w =
     w\<lparr>heap := (heap w)(cfnCluster := (heap w cfnCluster)
          \<lparr>vpcSecurityGroupIds :=
             (case vpcSecurityGroupIds (heap w cfnCluster) of
                None \<Rightarrow> Some securityGroupIds
              | Some old \<Rightarrow> Some (old @ securityGroupIds))\<rparr>)\<rparr>"

definition docdb_addSecurityGroup ::
    "DocDBDatabaseConnection \<Rightarrow> ISecurityGroup list \<Rightarrow> world \<Rightarrow> world" where
  "docdb_addSecurityGroup c securityGroups w =
     (let db = cluster_node (database (docdb_props c));
          (added, errorReasons, w1) =
            (if klass (heap w db) = DatabaseCluster then
               (case tryFindChild w db ''Resource'' of
                  Some resource \<Rightarrow>
                    (if klass (heap w resource) = CfnDBCluster
                     then (True, [],
                           push_vpcSecurityGroupIds resource
                             (map securityGroupId securityGroups) w)
                     else (False, [reason_internal_changed], w))
                | None \<Rightarrow> (False, [reason_internal_changed], w))
             else (False, [reason_not_cluster], w))
      in if \<not> added
         then addAnnotation AnnWarning db
                (sg_warning (node_id (heap w1 db)) securityGroups errorReasons) w1
         else w1)"

section \<open>The MongoDB connection\<close>

definition DB_CERT_LOCATION :: string where
  "DB_CERT_LOCATION = ''/opt/Thinkbox/certs/mongo_client.pfx''"

definition new_MongoDbInstanceDatabaseConnection ::
    "MongoDbInstanceConnectionOptions \<Rightarrow> world \<Rightarrow> MongoDbInstanceDatabaseConnection" where
  "new_MongoDbInstanceDatabaseConnection props w =
     \<lparr>mongo_props = props,
      mongo_containerEnvironment =
        [(''DB_TLS_CLIENT_CERT_URI'', secretArn (cert (clientCertificate props))),
         (''DB_TLS_CLIENT_CERT_PASSWORD_URI'', secretArn (passphrase (clientCertificate props)))],
      mongo_databaseConstruct =
        (if klass (heap w (mongo_node (mongo_database props))) = MongoDbInstance then
           (case mongoDataVolume (mongo_database props) of
              Some v \<Rightarrow> if klass (heap w v) = Volume then Some v else None
            | None \<Rightarrow> None)
         else None)\<rparr>"

text \<open>
  Modelled from the spec: \<^verbatim>\<open>ScriptAsset.fromPathConvention\<close> and \<^verbatim>\<open>ScriptAsset.executeOn\<close>
  (lib/core, not among the sources at hand). The first constructs a new script resource as
  a child of the given scope under the given identifier; the second makes the host download
  and run that script with the given arguments, which is one entry of its boot script.
\<close>

definition new_construct :: "string \<Rightarrow> construct_class \<Rightarrow> construct" where
  "new_construct ident k =
     \<lparr>node_id = ident, klass = k, children = [], defaultChild = None, dependencies = [],
      annotations = [], engineVersion = None, vpcSecurityGroupIds = None\<rparr>"

definition fromPathConvention :: "ref \<Rightarrow> string \<Rightarrow> world \<Rightarrow> ref \<times> world" where
  "fromPathConvention scope ident w =
     (let r = next_ref w in
      (r, w\<lparr>heap := (heap w)
               (r := new_construct ident ScriptAsset,
                scope := (heap w scope)\<lparr>children := children (heap w scope) @ [(ident, r)]\<rparr>),
             next_ref := Suc r\<rparr>))"

definition executeOn :: "ref \<Rightarrow> IHost \<Rightarrow> string list \<Rightarrow> world \<Rightarrow> world" where
  "executeOn script h args w =
     w\<lparr>userData := (userData w)(host_ref h := userData w (host_ref h) @ [ExecuteScript script args])\<rparr>"

fun osType_string :: "OperatingSystemType \<Rightarrow> string" where
  "osType_string LINUX = ''0''"
| "osType_string WINDOWS = ''1''"
| "osType_string UNKNOWN = ''2''"

definition uuid :: string where
  "uuid = ''e8125dd2-ab2c-4861-8ee4-998c26b30ee0''"

definition uniqueId :: "OperatingSystemType \<Rightarrow> string" where
  "uniqueId os = ''GetSecretToFile'' @ osType_string os @ filter (\<lambda>ch. ch \<noteq> CHR ''-'') uuid"

text \<open>
  The child found under \<^verbatim>\<open>uniqueId\<close> is cast to \<^verbatim>\<open>ScriptAsset\<close> unchecked
  (\<^verbatim>\<open>as unknown as ScriptAsset\<close>). A child of another class has no method \<^verbatim>\<open>executeOn\<close>,
  and the call on it raises a TypeError; nothing has been mutated by then.
\<close>

definition executeOn_not_a_function :: string where
  "executeOn_not_a_function = ''TypeError: getSecretsScript.executeOn is not a function''"

definition downloadCertificate ::
    "MongoDbInstanceDatabaseConnection \<Rightarrow> IHost \<Rightarrow> world \<Rightarrow> world outcome" where
  "downloadCertificate c h w =
     (let stack = host_stack h;
          args = [secretArn (cert (clientCertificate (mongo_props c))), DB_CERT_LOCATION]
      in case tryFindChild w stack (uniqueId (osType h)) of
           Some found \<Rightarrow>
             (if klass (heap w found) = ScriptAsset
              then Returned (executeOn found h args w)
              else Threw executeOn_not_a_function w)
         | None \<Rightarrow>
             (let (getSecretsScript, w1) = fromPathConvention stack (uniqueId (osType h)) w
              in Returned (executeOn getSecretsScript h args w1)))"

text \<open>The stack of the host has a child under \<^verbatim>\<open>uniqueId\<close> that is not a script asset.\<close>

definition script_id_clash :: "world \<Rightarrow> IHost \<Rightarrow> bool" where
  "script_id_clash w h =
     (case tryFindChild w (host_stack h) (uniqueId (osType h)) of
        Some found \<Rightarrow> klass (heap w found) \<noteq> ScriptAsset
      | None \<Rightarrow> False)"

definition mongo_installer_commands :: "MongoDbInstanceConnectionOptions \<Rightarrow> string list" where
  \<open>mongo_installer_commands props =
    (let certPwSecret = passphrase (clientCertificate props) in
     [''configure_database_installation_args(){'',
      getJsonVal_def_line,
      ''SET_X_IS_SET=$-'',
      ''{ set +x; } 2>/dev/null'',
      ''CERT_PASSWORD=$(aws secretsmanager get-secret-value --secret-id '' @
         secretArn certPwSecret @ '' --region '' @ secret_region certPwSecret @
         '' | getJsonVal 'SecretString')'',
      ''INSTALLER_DB_ARGS=( ["--dbssl"]=true ["--dbauth"]=true ["--dbsslauth"]=true '' @
         ''["--dbhost"]="'' @ fullHostname (mongo_database props) @
         ''" ["--dbport"]='' @ string_of_nat (port (mongo_database props)) @ '' '' @
         ''["--dbclientcert"]="'' @ DB_CERT_LOCATION @ ''" ["--dbcertpass"]=$CERT_PASSWORD )'',
      ''unset CERT_PASSWORD'',
      restore_xtrace,
      ''}'',
      ''export -f configure_database_installation_args''])\<close>

definition mongo_connection_commands :: "MongoDbInstanceConnectionOptions \<Rightarrow> string list" where
  \<open>mongo_connection_commands props =
    (let certPwSecret = passphrase (clientCertificate props) in
     [''configure_deadline_database(){'',
      getJsonVal_def_line,
      ''SET_X_IS_SET=$-'',
      ''{ set +x; } 2>/dev/null'',
      ''export DB_CERT_FILE="'' @ DB_CERT_LOCATION @ [CHR 0x22],
      ''export DB_CERT_PASSWORD=$(aws secretsmanager get-secret-value --secret-id '' @
         secretArn certPwSecret @ '' --region '' @ secret_region certPwSecret @
         '' | getJsonVal 'SecretString')'',
      restore_xtrace,
      ''}'',
      ''export -f configure_deadline_database''])\<close>

definition mongo_addInstallerDBArgs ::
    "MongoDbInstanceDatabaseConnection \<Rightarrow> IHost \<Rightarrow> world \<Rightarrow> world outcome" where
  "mongo_addInstallerDBArgs c h w =
     (if osType h \<noteq> LINUX then Threw ''Can only install Deadline from a Linux instance.'' w
      else case downloadCertificate c h w of
             Threw m w' \<Rightarrow> Threw m w'
           | Returned w1 \<Rightarrow>
               Returned (addCommands h (mongo_installer_commands (mongo_props c)) w1))"

definition mongo_addConnectionDBArgs ::
    "MongoDbInstanceDatabaseConnection \<Rightarrow> IHost \<Rightarrow> world \<Rightarrow> world outcome" where
  "mongo_addConnectionDBArgs c h w =
     (if osType h \<noteq> LINUX
      then Threw ''Connecting to the Deadline Database is currently only supported for Linux.'' w
      else case downloadCertificate c h w of
             Threw m w' \<Rightarrow> Threw m w'
           | Returned w1 \<Rightarrow>
               Returned (addCommands h (mongo_connection_commands (mongo_props c)) w1))"

definition mongo_grantRead ::
    "MongoDbInstanceDatabaseConnection \<Rightarrow> ref \<Rightarrow> world \<Rightarrow> world" where
  "mongo_grantRead c grantee w =
     secret_grantRead (passphrase (clientCertificate (mongo_props c))) grantee
       (secret_grantRead (cert (clientCertificate (mongo_props c))) grantee w)"

section \<open>The factory and the dispatch of the abstract contract\<close>

definition forDocDB :: "DocDBConnectionOptions \<Rightarrow> world \<Rightarrow> DatabaseConnection \<times> world" where
  "forDocDB options w = (let (c, w') = new_DocDBDatabaseConnection options w in (DocDB c, w'))"

definition forMongoDbInstance ::
    "MongoDbInstanceConnectionOptions \<Rightarrow> world \<Rightarrow> DatabaseConnection \<times> world" where
  "forMongoDbInstance options w = (MongoDbInst (new_MongoDbInstanceDatabaseConnection options w), w)"

fun databaseConstruct :: "DatabaseConnection \<Rightarrow> ref option" where
  "databaseConstruct (DocDB c) = docdb_databaseConstruct c"
| "databaseConstruct (MongoDbInst c) = mongo_databaseConstruct c"

fun addInstallerDBArgs :: "DatabaseConnection \<Rightarrow> IHost \<Rightarrow> world \<Rightarrow> world outcome" where
  "addInstallerDBArgs (DocDB c) h w = docdb_addInstallerDBArgs c h w"
| "addInstallerDBArgs (MongoDbInst c) h w = mongo_addInstallerDBArgs c h w"

fun addConnectionDBArgs :: "DatabaseConnection \<Rightarrow> IHost \<Rightarrow> world \<Rightarrow> world outcome" where
  "addConnectionDBArgs (DocDB c) h w = docdb_addConnectionDBArgs c h w"
| "addConnectionDBArgs (MongoDbInst c) h w = mongo_addConnectionDBArgs c h w"

fun grantRead :: "DatabaseConnection \<Rightarrow> ref \<Rightarrow> world \<Rightarrow> world" where
  "grantRead (DocDB c) grantee w = docdb_grantRead c grantee w"
| "grantRead (MongoDbInst c) grantee w = mongo_grantRead c grantee w"

section \<open>Calling sequences\<close>





text \<open>The script assets that the entries of a boot script download and run.\<close>

fun executed_scripts :: "boot_entry list \<Rightarrow> ref list" where
  "executed_scripts [] = []"
| "executed_scripts (Command c # es) = executed_scripts es"
| "executed_scripts (ExecuteScript r args # es) = r # executed_scripts es"

section \<open>Reading the generated shell text\<close>

text \<open>
  The installer argument set of the specification: an ordered list of flag and value,
  written as a bash associative-array assignment.
\<close>

definition render_array :: "string \<Rightarrow> (string \<times> string) list \<Rightarrow> string" where
  \<open>render_array name kvs =
     name @ ''=( '' @ concat (map (\<lambda>(k, v). ''["'' @ k @ ''"]='' @ v @ '' '') kvs) @ '')''\<close>

definition quoted :: "string \<Rightarrow> string" where
  "quoted s = [CHR 0x22] @ s @ [CHR 0x22]"














section \<open>A sample application\<close>

text \<open>
  A stack (1) with an inline DocumentDB cluster (2: its \<^verbatim>\<open>Resource\<close> 3 and \<^verbatim>\<open>Instance1\<close> 4),
  an imported cluster (5), two consumers (6, 7), a MongoDB instance (8) with its data
  volume (9), an inline cluster whose instance is not called \<^verbatim>\<open>Instance1\<close>
  (12: its \<^verbatim>\<open>Resource\<close> 13 and \<^verbatim>\<open>Primary\<close> 14), an inline cluster of engine version
  4.4.0 (16: its \<^verbatim>\<open>Resource\<close> 17 and \<^verbatim>\<open>Instance1\<close> 18), and a second stack (19) in
  which the consumer 7 was given the identifier of the certificate-download script.
\<close>

definition sample_heap :: "ref \<Rightarrow> construct" where
  "sample_heap r =
     (if r = 1 then new_construct ''Stack'' OtherConstruct
      else if r = 2 then (new_construct ''DocDB'' DatabaseCluster)
             \<lparr>children := [(''Resource'', 3), (''Instance1'', 4)], defaultChild := Some 3\<rparr>
      else if r = 3 then (new_construct ''Resource'' CfnDBCluster)\<lparr>engineVersion := Some ''5.0.0''\<rparr>
      else if r = 4 then new_construct ''Instance1'' CfnDBInstance
      else if r = 5 then new_construct ''ImportedDocDB'' OtherConstruct
      else if r = 8 then new_construct ''MongoDb'' MongoDbInstance
      else if r = 9 then new_construct ''MongoDbData'' Volume
      else if r = 12 then (new_construct ''DocDB2'' DatabaseCluster)
             \<lparr>children := [(''Resource'', 13), (''Primary'', 14)], defaultChild := Some 13\<rparr>
      else if r = 13 then (new_construct ''Resource'' CfnDBCluster)\<lparr>engineVersion := Some ''5.0.0''\<rparr>
      else if r = 14 then new_construct ''Primary'' CfnDBInstance
      else if r = 16 then (new_construct ''DocDB3'' DatabaseCluster)
             \<lparr>children := [(''Resource'', 17), (''Instance1'', 18)], defaultChild := Some 17\<rparr>
      else if r = 17 then (new_construct ''Resource'' CfnDBCluster)\<lparr>engineVersion := Some ''4.4.0''\<rparr>
      else if r = 18 then new_construct ''Instance1'' CfnDBInstance
      else if r = 19 then (new_construct ''Stack2'' OtherConstruct)
             \<lparr>children := [(uniqueId LINUX, 7)]\<rparr>
      else new_construct ''Consumer'' OtherConstruct)"

definition sample_world :: world where
  "sample_world = \<lparr>heap = sample_heap, next_ref = 20, userData = (\<lambda>h. []), grants = []\<rparr>"


definition sample_login :: secret where
  "sample_login = \<lparr>secretArn = ''arn:login'', secret_region = ''us-west-2''\<rparr>"

definition sample_docdb_options :: "ref \<Rightarrow> DocDBConnectionOptions" where
  "sample_docdb_options r =
     \<lparr>database = \<lparr>cluster_node = r, clusterEndpoint_hostname = ''docdb.example.com'',
                  clusterEndpoint_portAsString = ''27017''\<rparr>,
      login = sample_login\<rparr>"

definition sample_docdb :: "ref \<Rightarrow> DocDBDatabaseConnection" where
  "sample_docdb r = fst (new_DocDBDatabaseConnection (sample_docdb_options r) sample_world)"

definition sample_mongo_options :: MongoDbInstanceConnectionOptions where
  "sample_mongo_options =
     \<lparr>mongo_database = \<lparr>mongo_node = 8, fullHostname = ''mongo.example.com'', port = 27017,
                        mongoDataVolume = Some 9\<rparr>,
      clientCertificate =
        \<lparr>cert = \<lparr>secretArn = ''arn:cert'', secret_region = ''us-west-2''\<rparr>,
         passphrase = \<lparr>secretArn = ''arn:pass'', secret_region = ''us-west-2''\<rparr>\<rparr>\<rparr>"

definition sample_mongo :: MongoDbInstanceDatabaseConnection where
  "sample_mongo = new_MongoDbInstanceDatabaseConnection sample_mongo_options sample_world"

definition linux_host :: IHost where
  "linux_host = \<lparr>host_ref = 10, osType = LINUX, host_stack = 1\<rparr>"


definition clash_host :: IHost where
  "clash_host = \<lparr>host_ref = 10, osType = LINUX, host_stack = 19\<rparr>"


definition windows_host :: IHost where
  "windows_host = \<lparr>host_ref = 11, osType = WINDOWS, host_stack = 1\<rparr>"

definition sample_groups :: "ISecurityGroup list" where
  "sample_groups =
     [\<lparr>securityGroupId = ''sg-0a'', sg_node_id = ''GroupA''\<rparr>,
      \<lparr>securityGroupId = ''sg-0b'', sg_node_id = ''GroupB''\<rparr>]"

section \<open>Auxiliary facts\<close>

lemma docdb_props_sample [simp]: "docdb_props (sample_docdb r) = sample_docdb_options r"
  by (simp add: sample_docdb_def new_DocDBDatabaseConnection_def Let_def)

lemma cluster_node_sample [simp]: "cluster_node (database (sample_docdb_options r)) = r"
  by (simp add: sample_docdb_options_def)

lemma heap_sample_world [simp]: "heap sample_world = sample_heap"
  by (simp add: sample_world_def)

lemma mongo_props_sample [simp]: "mongo_props sample_mongo = sample_mongo_options"
  by (simp add: sample_mongo_def new_MongoDbInstanceDatabaseConnection_def)

lemma downloadCertificate_clash:
  assumes "script_id_clash w h"
  shows "downloadCertificate c h w = Threw executeOn_not_a_function w"
  using assms
  by (auto simp: downloadCertificate_def script_id_clash_def Let_def split: option.splits)

lemma downloadCertificate_reuse:
  assumes "tryFindChild w (host_stack h) (uniqueId (osType h)) = Some r"
      and "klass (heap w r) = ScriptAsset"
  shows "downloadCertificate c h w =
           Returned (w\<lparr>userData := (userData w)(host_ref h := userData w (host_ref h) @
               [ExecuteScript r [secretArn (cert (clientCertificate (mongo_props c))),
                                 DB_CERT_LOCATION]])\<rparr>)"
  using assms by (simp add: downloadCertificate_def executeOn_def Let_def)

lemma downloadCertificate_create:
  assumes "tryFindChild w (host_stack h) (uniqueId (osType h)) = None"
  shows "downloadCertificate c h w =
           Returned (w\<lparr>heap := (heap w)
                 (next_ref w := new_construct (uniqueId (osType h)) ScriptAsset,
                  host_stack h := (heap w (host_stack h))
                     \<lparr>children := children (heap w (host_stack h)) @
                                    [(uniqueId (osType h), next_ref w)]\<rparr>),
              next_ref := Suc (next_ref w),
              userData := (userData w)(host_ref h := userData w (host_ref h) @
               [ExecuteScript (next_ref w)
                  [secretArn (cert (clientCertificate (mongo_props c))), DB_CERT_LOCATION]])\<rparr>)"
  using assms by (simp add: downloadCertificate_def executeOn_def fromPathConvention_def Let_def)

lemma downloadCertificate_cases:
  "(script_id_clash w h \<and> downloadCertificate c h w = Threw executeOn_not_a_function w) \<or>
   (\<not> script_id_clash w h \<and>
    (\<exists>w1 script args. downloadCertificate c h w = Returned w1 \<and>
       userData w1 = (userData w)(host_ref h := userData w (host_ref h) @ [ExecuteScript script args])))"
proof (cases "tryFindChild w (host_stack h) (uniqueId (osType h))")
  case None
  then have "\<not> script_id_clash w h" by (simp add: script_id_clash_def)
  with downloadCertificate_create [OF None, of c] show ?thesis by simp blast
next
  case (Some r)
  show ?thesis
  proof (cases "klass (heap w r) = ScriptAsset")
    case True
    with Some have "\<not> script_id_clash w h" by (simp add: script_id_clash_def)
    with downloadCertificate_reuse [OF Some True, of c] show ?thesis by simp blast
  next
    case False
    with Some have "script_id_clash w h" by (simp add: script_id_clash_def)
    with downloadCertificate_clash [of w h c] show ?thesis by simp
  qed
qed

lemma klass_addAnnotation: "klass (heap (addAnnotation l s m w) r) = klass (heap w r)"
  by (simp add: addAnnotation_def)

lemma sublist_join: "x \<in> set xs \<Longrightarrow> sublist x (join sep xs)"
proof (induction sep xs rule: join.induct)
  case (3 sep a b ys)
  show ?case
  proof (cases "x = a")
    case True
    then show ?thesis by simp
  next
    case False
    with 3 have "sublist x (join sep (b # ys))" by simp
    then obtain ps ss where "join sep (b # ys) = ps @ x @ ss" by (auto simp: sublist_def)
    then have "join sep (a # b # ys) = (a @ sep @ ps) @ x @ ss" by simp
    then show ?thesis unfolding sublist_def by blast
  qed
qed simp_all

lemma sublist_sg_warning:
  assumes "sg \<in> set sgs"
  shows "sublist (sg_node_id sg) (sg_warning ident sgs reasons)"
proof -
  from assms have "sg_node_id sg \<in> set (map sg_node_id sgs)" by simp
  then have "sublist (sg_node_id sg) (join '', '' (map sg_node_id sgs))" by (rule sublist_join)
  then obtain ps ss where "join '', '' (map sg_node_id sgs) = ps @ sg_node_id sg @ ss"
    by (auto simp: sublist_def)
  then have "sg_warning ident sgs reasons =
      (''Failed to add the following security groups to '' @ ident @ '': '' @ ps) @
      sg_node_id sg @ (ss @ ''. '' @ join '' '' reasons)"
    by (simp add: sg_warning_def)
  then show ?thesis unfolding sublist_def by blast
qed

section \<open>Host-kind guard of the script-generation operations\<close>

text \<open>
  C1, as stated, with the operations throwing only on hosts that are not Linux: in the second
  stack of the sample application the identifier of the certificate-download script is taken
  by a construct of another class, and both operations of the MongoDB connection throw on
  the Linux host of that stack.
\<close>

theorem script_id_clash_throws_on_linux_counterexample:
  "osType clash_host = LINUX \<and>
   tryFindChild sample_world (host_stack clash_host) (uniqueId LINUX) = Some 7 \<and>
   klass (heap sample_world 7) = OtherConstruct \<and>
   addInstallerDBArgs (MongoDbInst sample_mongo) clash_host sample_world =
     Threw executeOn_not_a_function sample_world \<and>
   addConnectionDBArgs (MongoDbInst sample_mongo) clash_host sample_world =
     Threw executeOn_not_a_function sample_world"
  by (simp add: clash_host_def mongo_addInstallerDBArgs_def mongo_addConnectionDBArgs_def
        downloadCertificate_def tryFindChild_def sample_heap_def new_construct_def)

text \<open>
  C1, amended. For every host and both variants, \<^verbatim>\<open>addInstallerDBArgs\<close> and
  \<^verbatim>\<open>addConnectionDBArgs\<close> throw whenever the host's operating-system kind is not Linux, and
  whenever they throw, the store is the one before the call, so the host's boot script has
  received no command. The operations of the DocumentDB connection throw only then. Those
  of the MongoDB connection throw on a Linux host exactly when the host's stack has a child
  under the script's identifier that is not a script asset.
\<close>

theorem script_generation_throws_before_emitting:
  "(osType h \<noteq> LINUX \<longrightarrow>
      is_thrown (addInstallerDBArgs c h w) \<and> is_thrown (addConnectionDBArgs c h w)) \<and>
   (is_thrown (addInstallerDBArgs (DocDB d) h w) \<longleftrightarrow> osType h \<noteq> LINUX) \<and>
   (is_thrown (addConnectionDBArgs (DocDB d) h w) \<longleftrightarrow> osType h \<noteq> LINUX) \<and>
   (is_thrown (addInstallerDBArgs (MongoDbInst m) h w) \<longleftrightarrow>
      osType h \<noteq> LINUX \<or> script_id_clash w h) \<and>
   (is_thrown (addConnectionDBArgs (MongoDbInst m) h w) \<longleftrightarrow>
      osType h \<noteq> LINUX \<or> script_id_clash w h) \<and>
   (is_thrown (addInstallerDBArgs c h w) \<longrightarrow>
      final (addInstallerDBArgs c h w) = w \<and>
      userData (final (addInstallerDBArgs c h w)) (host_ref h) = userData w (host_ref h)) \<and>
   (is_thrown (addConnectionDBArgs c h w) \<longrightarrow>
      final (addConnectionDBArgs c h w) = w \<and>
      userData (final (addConnectionDBArgs c h w)) (host_ref h) = userData w (host_ref h))"
proof -
  have mongo: "(is_thrown (addInstallerDBArgs (MongoDbInst x) h w) \<longleftrightarrow>
                  osType h \<noteq> LINUX \<or> script_id_clash w h) \<and>
               (is_thrown (addConnectionDBArgs (MongoDbInst x) h w) \<longleftrightarrow>
                  osType h \<noteq> LINUX \<or> script_id_clash w h) \<and>
               (is_thrown (addInstallerDBArgs (MongoDbInst x) h w) \<longrightarrow>
                  final (addInstallerDBArgs (MongoDbInst x) h w) = w) \<and>
               (is_thrown (addConnectionDBArgs (MongoDbInst x) h w) \<longrightarrow>
                  final (addConnectionDBArgs (MongoDbInst x) h w) = w)" for x
    using downloadCertificate_cases [of w h x]
    by (auto simp: mongo_addInstallerDBArgs_def mongo_addConnectionDBArgs_def)
  have docdb: "(is_thrown (addInstallerDBArgs (DocDB x) h w) \<longleftrightarrow> osType h \<noteq> LINUX) \<and>
               (is_thrown (addConnectionDBArgs (DocDB x) h w) \<longleftrightarrow> osType h \<noteq> LINUX) \<and>
               (is_thrown (addInstallerDBArgs (DocDB x) h w) \<longrightarrow>
                  final (addInstallerDBArgs (DocDB x) h w) = w) \<and>
               (is_thrown (addConnectionDBArgs (DocDB x) h w) \<longrightarrow>
                  final (addConnectionDBArgs (DocDB x) h w) = w)" for x
    by (simp add: docdb_addInstallerDBArgs_def docdb_addConnectionDBArgs_def)
  show ?thesis
  proof (cases c)
    case (DocDB x)
    with docdb [of x] docdb [of d] mongo [of m] show ?thesis by auto
  next
    case (MongoDbInst x)
    with mongo [of x] docdb [of d] mongo [of m] show ?thesis by auto
  qed
qed

theorem script_generation_throws_witness:
  "is_thrown (addInstallerDBArgs (MongoDbInst sample_mongo) windows_host sample_world) \<and>
   final (addInstallerDBArgs (MongoDbInst sample_mongo) windows_host sample_world) = sample_world \<and>
   is_thrown (addConnectionDBArgs (DocDB (sample_docdb 2)) windows_host sample_world) \<and>
   final (addConnectionDBArgs (DocDB (sample_docdb 2)) windows_host sample_world) = sample_world \<and>
   is_thrown (addConnectionDBArgs (MongoDbInst sample_mongo) clash_host sample_world) \<and>
   final (addConnectionDBArgs (MongoDbInst sample_mongo) clash_host sample_world) = sample_world \<and>
   \<not> is_thrown (addInstallerDBArgs (DocDB (sample_docdb 2)) linux_host sample_world) \<and>
   \<not> is_thrown (addConnectionDBArgs (MongoDbInst sample_mongo) linux_host sample_world)"
proof -
  have c: "script_id_clash sample_world clash_host"
    by (simp add: script_id_clash_def clash_host_def tryFindChild_def sample_heap_def
          new_construct_def)
  have n: "\<not> script_id_clash sample_world linux_host"
    by (simp add: script_id_clash_def linux_host_def tryFindChild_def sample_heap_def
          new_construct_def)
  from c n
    script_generation_throws_before_emitting
      [of windows_host "MongoDbInst sample_mongo" sample_world "sample_docdb 2" sample_mongo]
    script_generation_throws_before_emitting
      [of windows_host "DocDB (sample_docdb 2)" sample_world "sample_docdb 2" sample_mongo]
    script_generation_throws_before_emitting
      [of clash_host "MongoDbInst sample_mongo" sample_world "sample_docdb 2" sample_mongo]
    script_generation_throws_before_emitting
      [of linux_host "MongoDbInst sample_mongo" sample_world "sample_docdb 2" sample_mongo]
  show ?thesis
    by (simp add: windows_host_def linux_host_def clash_host_def)
qed

section \<open>Engine-version diagnostic of the DocumentDB connection\<close>

text \<open>
  C2. Constructing the DocumentDB connection leaves the store untouched (no diagnostic) when
  the cluster's node has no default child, and when the default child's engine version
  starts with 3.6, 4.0 or 5.0. For any other version string it adds exactly one diagnostic,
  on the database construct, and changes no other construct.
\<close>

theorem docdb_version_diagnostic:
  "(defaultChild (heap w (cluster_node (database props))) = None \<longrightarrow>
      snd (forDocDB props w) = w) \<and>
   (\<forall>cl v. defaultChild (heap w (cluster_node (database props))) = Some cl \<and>
           engineVersion (heap w cl) = Some v \<and>
           (prefix ''3.6'' v \<or> prefix ''4.0'' v \<or> prefix ''5.0'' v) \<longrightarrow>
      snd (forDocDB props w) = w) \<and>
   (\<forall>cl v. defaultChild (heap w (cluster_node (database props))) = Some cl \<and>
           engineVersion (heap w cl) = Some v \<and>
           \<not> (prefix ''3.6'' v \<or> prefix ''4.0'' v \<or> prefix ''5.0'' v) \<longrightarrow>
      annotations (heap (snd (forDocDB props w)) (cluster_node (database props))) =
        annotations (heap w (cluster_node (database props))) @ [(AnnError, docdb_version_error)] \<and>
      (\<forall>r. r \<noteq> cluster_node (database props) \<longrightarrow> heap (snd (forDocDB props w)) r = heap w r))"
  by (auto simp: forDocDB_def new_DocDBDatabaseConnection_def isCompatibleDocDBVersion_def
        addAnnotation_def Let_def)

theorem docdb_version_diagnostic_witness:
  "snd (forDocDB (sample_docdb_options 5) sample_world) = sample_world \<and>
   snd (forDocDB (sample_docdb_options 2) sample_world) = sample_world \<and>
   annotations (heap (snd (forDocDB (sample_docdb_options 16) sample_world)) 16) =
     [(AnnError, docdb_version_error)]"
proof -
  have imported: "defaultChild (heap sample_world 5) = None"
    by (simp add: sample_heap_def new_construct_def)
  have v5: "defaultChild (heap sample_world 2) = Some 3 \<and>
            engineVersion (heap sample_world 3) = Some ''5.0.0'' \<and>
            (prefix ''3.6'' ''5.0.0'' \<or> prefix ''4.0'' ''5.0.0'' \<or> prefix ''5.0'' ''5.0.0'')"
    by (simp add: sample_heap_def new_construct_def)
  have v44: "defaultChild (heap sample_world 16) = Some 17 \<and>
            engineVersion (heap sample_world 17) = Some ''4.4.0'' \<and>
            \<not> (prefix ''3.6'' ''4.4.0'' \<or> prefix ''4.0'' ''4.4.0'' \<or> prefix ''5.0'' ''4.4.0'')"
    by (simp add: sample_heap_def new_construct_def)
  have old: "annotations (heap sample_world 16) = []"
    by (simp add: sample_heap_def new_construct_def)
  from docdb_version_diagnostic [of sample_world "sample_docdb_options 5"] imported
  have a: "snd (forDocDB (sample_docdb_options 5) sample_world) = sample_world" by simp
  from docdb_version_diagnostic [of sample_world "sample_docdb_options 2"] v5
  have b: "snd (forDocDB (sample_docdb_options 2) sample_world) = sample_world"
    by (simp del: heap_sample_world)
  from docdb_version_diagnostic [of sample_world "sample_docdb_options 16"] v44 old
  have c: "annotations (heap (snd (forDocDB (sample_docdb_options 16) sample_world)) 16) =
     [(AnnError, docdb_version_error)]"
    by (simp del: heap_sample_world)
  from a b c show ?thesis by simp
qed

section \<open>Deployment ordering on the DocumentDB instance\<close>

text \<open>
  C3. \<^verbatim>\<open>addChildDependency\<close> of the DocumentDB connection: when the cluster's node has a
  child \<^verbatim>\<open>Instance1\<close>, the call returns and the child construct has gained one dependency,
  on that instance, nothing else being changed; when there is no such child and the node
  has a default child, the call throws and changes nothing; when there is neither, the call
  returns the store as it was.
\<close>

theorem docdb_addChildDependency_cases:
  "(\<forall>i. tryFindChild w (cluster_node (database (docdb_props c))) ''Instance1'' = Some i \<longrightarrow>
      (\<exists>w'. docdb_addChildDependency c child w = Returned w' \<and>
            dependencies (heap w' child) = dependencies (heap w child) @ [i] \<and>
            (\<forall>r. r \<noteq> child \<longrightarrow> heap w' r = heap w r))) \<and>
   (tryFindChild w (cluster_node (database (docdb_props c))) ''Instance1'' = None \<and>
    defaultChild (heap w (cluster_node (database (docdb_props c)))) \<noteq> None \<longrightarrow>
      docdb_addChildDependency c child w = Threw docdb_internal_changed w) \<and>
   (tryFindChild w (cluster_node (database (docdb_props c))) ''Instance1'' = None \<and>
    defaultChild (heap w (cluster_node (database (docdb_props c)))) = None \<longrightarrow>
      docdb_addChildDependency c child w = Returned w)"
  by (auto simp: docdb_addChildDependency_def addDependency_def Let_def)

theorem docdb_addChildDependency_cases_witness:
  "(\<exists>w'. docdb_addChildDependency (sample_docdb 2) 6 sample_world = Returned w' \<and>
         dependencies (heap w' 6) = [4]) \<and>
   docdb_addChildDependency (sample_docdb 12) 6 sample_world =
     Threw docdb_internal_changed sample_world \<and>
   docdb_addChildDependency (sample_docdb 5) 6 sample_world = Returned sample_world"
proof -
  have inst: "tryFindChild sample_world 2 ''Instance1'' = Some 4"
    by (simp add: tryFindChild_def sample_heap_def)
  have old: "dependencies (heap sample_world 6) = []"
    by (simp add: sample_heap_def new_construct_def)
  have renamed: "tryFindChild sample_world 12 ''Instance1'' = None \<and>
                 defaultChild (heap sample_world 12) \<noteq> None"
    by (simp add: tryFindChild_def sample_heap_def)
  have imported: "tryFindChild sample_world 5 ''Instance1'' = None \<and>
                  defaultChild (heap sample_world 5) = None"
    by (simp add: tryFindChild_def sample_heap_def new_construct_def)
  from docdb_addChildDependency_cases [of sample_world "sample_docdb 2" 6] inst old
  have a: "\<exists>w'. docdb_addChildDependency (sample_docdb 2) 6 sample_world = Returned w' \<and>
         dependencies (heap w' 6) = [4]"
    by (simp del: heap_sample_world) blast
  from docdb_addChildDependency_cases [of sample_world "sample_docdb 12" 6] renamed
  have b: "docdb_addChildDependency (sample_docdb 12) 6 sample_world =
     Threw docdb_internal_changed sample_world"
    by (simp del: heap_sample_world)
  from docdb_addChildDependency_cases [of sample_world "sample_docdb 5" 6] imported
  have c: "docdb_addChildDependency (sample_docdb 5) 6 sample_world = Returned sample_world"
    by (simp del: heap_sample_world)
  from a b c show ?thesis by blast
qed

text \<open>
  C4, as stated, for every cluster that was provisioned inline: the cluster 12 of the sample
  application is a \<^verbatim>\<open>DatabaseCluster\<close> with a default child, its instance is not called
  \<^verbatim>\<open>Instance1\<close>, and the first call throws, leaving the consumer 6 without any dependency.
\<close>

theorem docdb_two_dependencies_counterexample:
  "klass (heap sample_world 12) = DatabaseCluster \<and>
   defaultChild (heap sample_world 12) = Some 13 \<and>
   docdb_addChildDependency (sample_docdb 12) 6 sample_world =
     Threw docdb_internal_changed sample_world \<and>
   dependencies (heap sample_world 6) = []"
  by (simp add: docdb_addChildDependency_def tryFindChild_def sample_heap_def new_construct_def)

text \<open>
  C4, amended. For every DocumentDB cluster provisioned inline whose node has a child
  \<^verbatim>\<open>Instance1\<close>, and every two distinct consumers, calling \<^verbatim>\<open>addChildDependency\<close> for the
  first and then for the second returns both times and gives each consumer one new
  dependency; the two edges are distinct and both end at that instance. No other construct
  changes.
\<close>

theorem docdb_two_dependencies_same_instance:
  assumes "defaultChild (heap w (cluster_node (database (docdb_props c)))) \<noteq> None"
      and "tryFindChild w (cluster_node (database (docdb_props c))) ''Instance1'' = Some i"
      and "c1 \<noteq> c2"
  shows "\<exists>w1 w2. docdb_addChildDependency c c1 w = Returned w1 \<and>
           docdb_addChildDependency c c2 w1 = Returned w2 \<and>
           dependencies (heap w2 c1) = dependencies (heap w c1) @ [i] \<and>
           dependencies (heap w2 c2) = dependencies (heap w c2) @ [i] \<and>
           (c1, i) \<noteq> (c2, i) \<and>
           (\<forall>r. r \<noteq> c1 \<and> r \<noteq> c2 \<longrightarrow> heap w2 r = heap w r)"
  using assms
  by (auto simp: docdb_addChildDependency_def addDependency_def tryFindChild_def Let_def)

theorem docdb_two_dependencies_witness:
  "\<exists>w1 w2. docdb_addChildDependency (sample_docdb 2) 6 sample_world = Returned w1 \<and>
           docdb_addChildDependency (sample_docdb 2) 7 w1 = Returned w2 \<and>
           dependencies (heap w2 6) = [4] \<and> dependencies (heap w2 7) = [4]"
proof -
  have h1: "defaultChild (heap sample_world (cluster_node (database (docdb_props (sample_docdb 2))))) \<noteq> None"
    by (simp add: sample_heap_def)
  have h2: "tryFindChild sample_world (cluster_node (database (docdb_props (sample_docdb 2))))
              ''Instance1'' = Some 4"
    by (simp add: tryFindChild_def sample_heap_def)
  have h3: "(6::ref) \<noteq> 7" by simp
  have d: "dependencies (heap sample_world 6) = [] \<and> dependencies (heap sample_world 7) = []"
    by (simp add: sample_heap_def new_construct_def)
  from docdb_two_dependencies_same_instance [OF h1 h2 h3] d show ?thesis by auto
qed

section \<open>Security groups on a cluster that cannot take them\<close>

text \<open>
  C6. When the database of the DocumentDB connection is not a \<^verbatim>\<open>DatabaseCluster\<close> (it was
  imported), or its child \<^verbatim>\<open>Resource\<close> is missing or not a \<^verbatim>\<open>CfnDBCluster\<close>,
  \<^verbatim>\<open>addSecurityGroup\<close> returns; the only change to the store is one warning on the database
  construct, and the text of that warning contains the identifier of every group passed.
\<close>

theorem docdb_addSecurityGroup_degrades_to_warning:
  assumes "klass (heap w (cluster_node (database (docdb_props c)))) \<noteq> DatabaseCluster \<or>
           (\<forall>r. tryFindChild w (cluster_node (database (docdb_props c))) ''Resource'' = Some r \<longrightarrow>
                klass (heap w r) \<noteq> CfnDBCluster)"
  shows "\<exists>msg. docdb_addSecurityGroup c sgs w =
           w\<lparr>heap := (heap w)(cluster_node (database (docdb_props c)) :=
                (heap w (cluster_node (database (docdb_props c))))
                  \<lparr>annotations := annotations (heap w (cluster_node (database (docdb_props c)))) @
                                    [(AnnWarning, msg)]\<rparr>)\<rparr> \<and>
           (\<forall>sg \<in> set sgs. sublist (sg_node_id sg) msg)"
  using assms
  by (auto simp: docdb_addSecurityGroup_def addAnnotation_def Let_def sublist_sg_warning
        split: option.splits)

theorem docdb_addSecurityGroup_warning_witness:
  "\<exists>msg. docdb_addSecurityGroup (sample_docdb 5) sample_groups sample_world =
           sample_world\<lparr>heap := (heap sample_world)(5 :=
                (heap sample_world 5)\<lparr>annotations := [(AnnWarning, msg)]\<rparr>)\<rparr> \<and>
         sublist ''GroupA'' msg \<and> sublist ''GroupB'' msg"
proof -
  have imported: "klass (heap sample_world (cluster_node (database (docdb_props (sample_docdb 5)))))
                    \<noteq> DatabaseCluster"
    by (simp add: sample_heap_def new_construct_def)
  have old: "annotations (heap sample_world 5) = []"
    by (simp add: sample_heap_def new_construct_def)
  from docdb_addSecurityGroup_degrades_to_warning [of sample_world "sample_docdb 5" sample_groups]
    imported
  obtain msg where
    m: "docdb_addSecurityGroup (sample_docdb 5) sample_groups sample_world =
           sample_world\<lparr>heap := (heap sample_world)(5 :=
                (heap sample_world 5)\<lparr>annotations := annotations (heap sample_world 5) @
                                                       [(AnnWarning, msg)]\<rparr>)\<rparr>"
    and s: "\<forall>sg \<in> set sample_groups. sublist (sg_node_id sg) msg"
    by (auto simp del: heap_sample_world)
  from s have "sublist ''GroupA'' msg \<and> sublist ''GroupB'' msg"
    by (simp add: sample_groups_def)
  with m old show ?thesis by (auto simp del: heap_sample_world)
qed

section \<open>Secret grants\<close>

text \<open>
  C8. For every grantee, \<^verbatim>\<open>grantRead\<close> of the DocumentDB connection issues one read grant,
  on the login secret; \<^verbatim>\<open>grantRead\<close> of the MongoDB connection issues two, on the client
  certificate and then on its passphrase.
\<close>

theorem grantRead_grants:
  "grants (grantRead (DocDB d) grantee w) = grants w @ [(login (docdb_props d), grantee)] \<and>
   grants (grantRead (MongoDbInst m) grantee w) =
     grants w @ [(cert (clientCertificate (mongo_props m)), grantee),
                 (passphrase (clientCertificate (mongo_props m)), grantee)] \<and>
   length (grants (grantRead (DocDB d) grantee w)) = length (grants w) + 1 \<and>
   length (grants (grantRead (MongoDbInst m) grantee w)) = length (grants w) + 2"
  by (simp add: docdb_grantRead_def mongo_grantRead_def secret_grantRead_def)

section \<open>The owning construct of the database\<close>

text \<open>
  C10. \<^verbatim>\<open>databaseConstruct\<close> is set by the constructor: for the DocumentDB connection it is
  the database when that is a \<^verbatim>\<open>DatabaseCluster\<close>, and undefined otherwise; for the MongoDB
  connection it is the data volume when the database is a \<^verbatim>\<open>MongoDbInstance\<close> whose data
  volume is a \<^verbatim>\<open>Volume\<close>, undefined otherwise, and never the database instance itself.
\<close>

theorem databaseConstruct_at_construction:
  "databaseConstruct (fst (forDocDB dopts w)) =
     (if klass (heap w (cluster_node (database dopts))) = DatabaseCluster
      then Some (cluster_node (database dopts)) else None) \<and>
   databaseConstruct (fst (forMongoDbInstance mopts w)) =
     (if klass (heap w (mongo_node (mongo_database mopts))) = MongoDbInstance \<and>
         (\<exists>v. mongoDataVolume (mongo_database mopts) = Some v \<and> klass (heap w v) = Volume)
      then mongoDataVolume (mongo_database mopts) else None) \<and>
   databaseConstruct (fst (forMongoDbInstance mopts w)) \<noteq> Some (mongo_node (mongo_database mopts))"
  by (auto simp: forDocDB_def forMongoDbInstance_def new_DocDBDatabaseConnection_def
        new_MongoDbInstanceDatabaseConnection_def Let_def klass_addAnnotation
        split: option.splits)

theorem databaseConstruct_witness:
  "databaseConstruct (fst (forDocDB (sample_docdb_options 2) sample_world)) = Some 2 \<and>
   databaseConstruct (fst (forDocDB (sample_docdb_options 5) sample_world)) = None \<and>
   databaseConstruct (fst (forMongoDbInstance sample_mongo_options sample_world)) = Some 9"
  using databaseConstruct_at_construction [of "sample_docdb_options 2" sample_world sample_mongo_options]
        databaseConstruct_at_construction [of "sample_docdb_options 5" sample_world sample_mongo_options]
  by (simp add: sample_heap_def new_construct_def sample_mongo_options_def)

section \<open>Installer flags\<close>

lemma docdb_installer_line:
  "filter (prefix ''INSTALLER_DB_ARGS'') (docdb_installer_commands p) =
     [render_array ''INSTALLER_DB_ARGS''
        [(''--dbuser'', ''$DB_USERNAME''), (''--dbpassword'', ''$DB_PASSWORD''),
         (''--dbhost'', clusterEndpoint_hostname (database p)),
         (''--dbport'', clusterEndpoint_portAsString (database p)),
         (''--dbtype'', ''DocumentDB'')]]"
  by (simp add: docdb_installer_commands_def render_array_def getJsonVal_def_line_def
        restore_xtrace_def)

lemma mongo_installer_line:
  "filter (prefix ''INSTALLER_DB_ARGS'') (mongo_installer_commands p) =
     [render_array ''INSTALLER_DB_ARGS''
        [(''--dbssl'', ''true''), (''--dbauth'', ''true''), (''--dbsslauth'', ''true''),
         (''--dbhost'', quoted (fullHostname (mongo_database p))),
         (''--dbport'', string_of_nat (port (mongo_database p))),
         (''--dbclientcert'', quoted DB_CERT_LOCATION),
         (''--dbcertpass'', ''$CERT_PASSWORD'')]]"
  by (simp add: mongo_installer_commands_def render_array_def getJsonVal_def_line_def
        restore_xtrace_def quoted_def Let_def del: string_of_nat.simps)

lemma docdb_installer_emits:
  assumes "osType h = LINUX"
  shows "\<exists>w'. addInstallerDBArgs (DocDB d) h w = Returned w' \<and>
            userData w' (host_ref h) =
              userData w (host_ref h) @ map Command (docdb_installer_commands (docdb_props d))"
  using assms by (simp add: docdb_addInstallerDBArgs_def addCommands_def)


lemma mongo_installer_emits:
  assumes "osType h = LINUX" and "\<not> script_id_clash w h"
  shows "\<exists>w' script args. addInstallerDBArgs (MongoDbInst m) h w = Returned w' \<and>
            userData w' (host_ref h) =
              userData w (host_ref h) @ ExecuteScript script args #
                map Command (mongo_installer_commands (mongo_props m))"
proof -
  from downloadCertificate_cases [of w h m] assms(2) obtain w1 script args where
    "downloadCertificate m h w = Returned w1"
    "userData w1 = (userData w)(host_ref h := userData w (host_ref h) @ [ExecuteScript script args])"
    by blast
  with assms(1) show ?thesis by (simp add: mongo_addInstallerDBArgs_def addCommands_def)
qed


lemma no_clash_sample: "\<not> script_id_clash sample_world linux_host"
  by (simp add: script_id_clash_def linux_host_def tryFindChild_def sample_heap_def
        new_construct_def)

text \<open>
  C7. On every Linux host \<^verbatim>\<open>addInstallerDBArgs\<close> returns and appends its commands to the
  host's boot script (for the MongoDB connection, when the script's identifier is not taken by
  a construct of another class). Exactly one of these commands assigns \<^verbatim>\<open>INSTALLER_DB_ARGS\<close>,
  and it is the array with the flags --dbuser, --dbpassword, --dbhost, --dbport,
  --dbtype=DocumentDB for the DocumentDB connection, and --dbssl=true, --dbauth=true,
  --dbsslauth=true, --dbhost, --dbport, --dbclientcert, --dbcertpass for the MongoDB
  connection, in this order.
\<close>

theorem installer_argument_flags:
  assumes "osType h = LINUX"
  shows "(\<exists>w'. addInstallerDBArgs (DocDB d) h w = Returned w' \<and>
            userData w' (host_ref h) =
              userData w (host_ref h) @ map Command (docdb_installer_commands (docdb_props d))) \<and>
         filter (prefix ''INSTALLER_DB_ARGS'') (docdb_installer_commands (docdb_props d)) =
           [render_array ''INSTALLER_DB_ARGS''
              [(''--dbuser'', ''$DB_USERNAME''), (''--dbpassword'', ''$DB_PASSWORD''),
               (''--dbhost'', clusterEndpoint_hostname (database (docdb_props d))),
               (''--dbport'', clusterEndpoint_portAsString (database (docdb_props d))),
               (''--dbtype'', ''DocumentDB'')]] \<and>
         (\<not> script_id_clash w h \<longrightarrow>
            (\<exists>w' script args. addInstallerDBArgs (MongoDbInst m) h w = Returned w' \<and>
               userData w' (host_ref h) =
                 userData w (host_ref h) @ ExecuteScript script args #
                   map Command (mongo_installer_commands (mongo_props m)))) \<and>
         filter (prefix ''INSTALLER_DB_ARGS'') (mongo_installer_commands (mongo_props m)) =
           [render_array ''INSTALLER_DB_ARGS''
              [(''--dbssl'', ''true''), (''--dbauth'', ''true''), (''--dbsslauth'', ''true''),
               (''--dbhost'', quoted (fullHostname (mongo_database (mongo_props m)))),
               (''--dbport'', string_of_nat (port (mongo_database (mongo_props m)))),
               (''--dbclientcert'', quoted DB_CERT_LOCATION),
               (''--dbcertpass'', ''$CERT_PASSWORD'')]]"
  using docdb_installer_emits [OF assms, of d w] mongo_installer_emits [OF assms, of w m]
    docdb_installer_line [of "docdb_props d"] mongo_installer_line [of "mongo_props m"]
  by blast

theorem installer_argument_flags_witness:
  "osType linux_host = LINUX \<and> \<not> script_id_clash sample_world linux_host \<and>
   (\<exists>w'. addInstallerDBArgs (DocDB (sample_docdb 2)) linux_host sample_world = Returned w' \<and>
      userData w' 10 = map Command (docdb_installer_commands (sample_docdb_options 2))) \<and>
   (\<exists>w' script args.
      addInstallerDBArgs (MongoDbInst sample_mongo) linux_host sample_world = Returned w' \<and>
      userData w' 10 = ExecuteScript script args #
        map Command (mongo_installer_commands sample_mongo_options))"
proof -
  have l: "osType linux_host = LINUX" by (simp add: linux_host_def)
  have r: "host_ref linux_host = 10" by (simp add: linux_host_def)
  have u: "userData sample_world 10 = []" by (simp add: sample_world_def)
  from installer_argument_flags [OF l, of "sample_docdb 2" sample_world sample_mongo]
    l r u no_clash_sample
  show ?thesis by simp
qed

section \<open>The certificate-download script of the MongoDB connection\<close>

lemma executed_scripts_append [simp]:
  "executed_scripts (xs @ ys) = executed_scripts xs @ executed_scripts ys"
  by (induction xs rule: executed_scripts.induct) simp_all

lemma executed_scripts_Command [simp]: "executed_scripts (map Command cs) = []"
  by (induction cs) simp_all










section \<open>The secure-script discipline\<close>







































end
